theory Spec2Isabelle
  imports Complex_Main
begin

section \<open>The ATO single-train model (src/ato_simulator/ato.py)\<close>

text \<open>
  Python floats and numpy float64 values are modelled as HOL reals, so every statement
  below is about the arithmetic the code writes down, read in exact real arithmetic:
  rounding, infinities and NaN are outside the model. The literal \<open>9.81\<close> is the real
  981/100 and \<open>100 / 3.6\<close> is 250/9.
\<close>

subsection \<open>Data\<close>

text \<open>The attributes \<open>__init__\<close> stores on \<open>self\<close> (ato.py, lines 32-37).\<close>

record ATOSingleTrain =
  a_davis_formula :: real
  b_davis_formula :: real
  c_davis_formula :: real
  train_mass :: real
  maximum_traction_force :: real
  maximum_braking_force :: real

definition init :: "real \<Rightarrow> real \<Rightarrow> real \<Rightarrow> real \<Rightarrow> real \<Rightarrow> real \<Rightarrow> ATOSingleTrain" where
  "init a b c m ft fb =
     \<lparr>a_davis_formula = a, b_davis_formula = b, c_davis_formula = c,
      train_mass = m, maximum_traction_force = ft, maximum_braking_force = fb\<rparr>"

text \<open>
  The exceptions the code can raise: a failed \<open>assert\<close> with its message, and the
  division by a zero Python float in \<open>curvature_force\<close>. \<open>AttributeError\<close> is what an
  attribute access on an object of the wrong class raises and \<open>IndexError\<close> what an
  array access out of range raises; only the store-level model below can meet them.
\<close>

datatype error = AssertionError string | ZeroDivisionError | AttributeError | IndexError

text \<open>
  A Python \<open>dict\<close> with string keys, in insertion order. A one-dimensional numpy array is
  the list of its entries; its \<open>shape\<close> is \<open>(n,)\<close> with \<open>n\<close> the length of the list.
\<close>

type_synonym dict = "(string \<times> real) list"

type_synonym ndarray = "real list"

subsection \<open>Force laws\<close>

text \<open>ato.py, line 51.\<close>

definition aero_drag_and_rolling_res :: "ATOSingleTrain \<Rightarrow> real \<Rightarrow> real" where
  "aero_drag_and_rolling_res self velocity =
     a_davis_formula self + b_davis_formula self * \<bar>velocity\<bar> + c_davis_formula self * velocity ^ 2"

text \<open>ato.py, line 65.\<close>

definition gradient_force :: "ATOSingleTrain \<Rightarrow> real \<Rightarrow> real" where
  "gradient_force self gradient = train_mass self * 9.81 * sin gradient"

text \<open>
  ato.py, line 81. The operands are Python floats, so a zero \<open>curvature_radius\<close> raises
  \<open>ZeroDivisionError\<close>.
\<close>

definition curvature_force :: "ATOSingleTrain \<Rightarrow> real \<Rightarrow> real \<Rightarrow> error + real" where
  "curvature_force self k_curvature curvature_radius =
     (if curvature_radius = 0 then Inl ZeroDivisionError
      else Inr (train_mass self * 9.81 * k_curvature / curvature_radius))"

subsection \<open>The step operation\<close>

text \<open>
  ato.py, lines 114-152. The three \<open>assert\<close> statements come first and in the source's
  order. The division by \<open>self.train_mass\<close> on line 132 has a numpy float64 numerator
  (\<open>np.sin\<close> returns one), so it raises nothing; for a zero mass numpy yields an infinity or
  NaN where HOL yields 0, which is why the statement about coasting, where the quotient
  has to be 0, assumes a non-zero mass. Line 139 overwrites entry 1 of the array built on
  line 133.
\<close>

definition step ::
  "ATOSingleTrain \<Rightarrow> ndarray \<Rightarrow> real \<Rightarrow> real \<Rightarrow> dict \<Rightarrow> dict \<Rightarrow> dict \<Rightarrow> error + (ndarray \<times> dict)" where
  "step self state action dt track_info journey_profile segment_profile =
     (if \<not> (action \<ge> -1 \<and> action \<le> 1) then
        Inl (AssertionError ''Action must be in the range [-1, 1]'')
      else if length state \<noteq> 2 then
        Inl (AssertionError ''State must be a 2D array with shape (2,)'')
      else if \<not> dt > 0 then
        Inl (AssertionError ''Time step must be positive'')
      else
        let gradient = 0;
            k_curvature = 0;
            curvature_radius = 1;
            max_speed = 100 / 3.6;
            input_force = (if action \<ge> 0 then action * maximum_traction_force self
                           else action * maximum_braking_force self);
            gradient_force' = gradient_force self gradient
        in case curvature_force self k_curvature curvature_radius of
             Inl e \<Rightarrow> Inl e
           | Inr curvature_force' \<Rightarrow>
               let aerodynamic_drag_and_rolling_res = aero_drag_and_rolling_res self (state ! 1);
                   total_force = input_force - gradient_force' - curvature_force'
                                 - aerodynamic_drag_and_rolling_res;
                   acceleration = total_force / train_mass self;
                   new_state = [state ! 0 + state ! 1 * dt, acceleration * dt + state ! 1];
                   speed_overshoot = max 0 (new_state ! 1 - max_speed);
                   new_state = new_state[1 := min (new_state ! 1) max_speed];
                   info = [(''gradient'', gradient),
                           (''curvature'', k_curvature),
                           (''curvature_radius'', curvature_radius),
                           (''max_speed'', max_speed),
                           (''speed_overshoot'', speed_overshoot),
                           (''aero_drag_and_rolling_res'', aerodynamic_drag_and_rolling_res),
                           (''gradient_force'', gradient_force'),
                           (''curvature_force'', curvature_force'),
                           (''input_force'', input_force)]
               in Inr (new_state, info))"

subsection \<open>The driving loop\<close>

text \<open>
  example.py, lines 21-28: the loop calls \<open>step\<close> with empty dictionaries and feeds each
  returned state into the next call. The model takes the action, the time step and the
  number of iterations as arguments (the script fixes them to 1.0, 0.01 and 100); an
  exception ends the loop.
\<close>

fun drive :: "ATOSingleTrain \<Rightarrow> ndarray \<Rightarrow> real \<Rightarrow> real \<Rightarrow> nat \<Rightarrow> error + ndarray" where
  "drive train state action dt 0 = Inr state"
| "drive train state action dt (Suc n) =
     (case step train state action dt [] [] [] of
        Inl e \<Rightarrow> Inl e
      | Inr (state', info) \<Rightarrow> drive train state' action dt n)"

subsection \<open>The step operation on a store\<close>

text \<open>
  Whether \<open>step\<close> writes to the caller's array depends on which object each access
  reaches, so this second model of the same code (ato.py, lines 39-152) makes the objects
  explicit. A store is the list of the objects allocated so far and a reference is an
  index into it; \<open>self\<close> and \<open>state\<close> are references. \<open>np.array\<close> allocates a new array at
  the end of the store, an item assignment replaces one entry of the array a reference
  points to, and every method returns the store it leaves behind. An exception leaves the
  store as it was at the raise; in \<open>step\<close> every raise comes before the first write.
\<close>

datatype obj = Train ATOSingleTrain | NDArray ndarray

type_synonym ref = nat

type_synonym heap = "obj list"

definition deref :: "heap \<Rightarrow> ref \<Rightarrow> obj option" where
  "deref h r = (if r < length h then Some (h ! r) else None)"

text \<open>Attribute access on \<open>self\<close>, and the entries of an array object.\<close>

definition train_at :: "heap \<Rightarrow> ref \<Rightarrow> error + ATOSingleTrain" where
  "train_at h r = (case deref h r of Some (Train t) \<Rightarrow> Inr t | _ \<Rightarrow> Inl AttributeError)"

definition array_at :: "heap \<Rightarrow> ref \<Rightarrow> error + ndarray" where
  "array_at h r = (case deref h r of Some (NDArray xs) \<Rightarrow> Inr xs | _ \<Rightarrow> Inl AttributeError)"

text \<open>\<open>np.array([...])\<close>: a new object, at an address no reference held before.\<close>

definition np_array :: "heap \<Rightarrow> real list \<Rightarrow> heap \<times> ref" where
  "np_array h xs = (h @ [NDArray xs], length h)"

text \<open>\<open>a[i]\<close> and \<open>a[i] = x\<close> for a non-negative index.\<close>

definition getitem :: "heap \<Rightarrow> ref \<Rightarrow> nat \<Rightarrow> error + real" where
  "getitem h r i =
     (case array_at h r of
        Inl e \<Rightarrow> Inl e
      | Inr xs \<Rightarrow> if i < length xs then Inr (xs ! i) else Inl IndexError)"

definition setitem :: "heap \<Rightarrow> ref \<Rightarrow> nat \<Rightarrow> real \<Rightarrow> error + heap" where
  "setitem h r i x =
     (case array_at h r of
        Inl e \<Rightarrow> Inl e
      | Inr xs \<Rightarrow> if i < length xs then Inr (h[r := NDArray (xs[i := x])]) else Inl IndexError)"

text \<open>Sequencing: an exception skips the rest.\<close>

definition and_then :: "error + 'a \<Rightarrow> ('a \<Rightarrow> error + 'b) \<Rightarrow> error + 'b" where
  "and_then m f = (case m of Inl e \<Rightarrow> Inl e | Inr x \<Rightarrow> f x)"

text \<open>The three force laws read attributes of \<open>self\<close> and assign nothing.\<close>

definition aero_drag_and_rolling_res_mem :: "heap \<Rightarrow> ref \<Rightarrow> real \<Rightarrow> error + (heap \<times> real)" where
  "aero_drag_and_rolling_res_mem h self velocity =
     and_then (train_at h self) (\<lambda>t. Inr (h, aero_drag_and_rolling_res t velocity))"

definition gradient_force_mem :: "heap \<Rightarrow> ref \<Rightarrow> real \<Rightarrow> error + (heap \<times> real)" where
  "gradient_force_mem h self gradient =
     and_then (train_at h self) (\<lambda>t. Inr (h, gradient_force t gradient))"

definition curvature_force_mem :: "heap \<Rightarrow> ref \<Rightarrow> real \<Rightarrow> real \<Rightarrow> error + (heap \<times> real)" where
  "curvature_force_mem h self k_curvature curvature_radius =
     and_then (train_at h self) (\<lambda>t.
     and_then (curvature_force t k_curvature curvature_radius) (\<lambda>force. Inr (h, force)))"

text \<open>
  \<open>step\<close>, statement by statement: the assertions (line 116 reads the array behind
  \<open>state\<close>), the placeholders, the forces, the allocation of \<open>new_state\<close> on line 133, the
  read of \<open>new_state[1]\<close> on line 138 and the assignment to \<open>new_state[1]\<close> on line 139.
  The result is the final store, the reference to \<open>new_state\<close> and the \<open>info\<close> dictionary.
\<close>

definition step_mem ::
  "heap \<Rightarrow> ref \<Rightarrow> ref \<Rightarrow> real \<Rightarrow> real \<Rightarrow> dict \<Rightarrow> dict \<Rightarrow> dict \<Rightarrow> error + (heap \<times> ref \<times> dict)" where
  "step_mem h self state action dt track_info journey_profile segment_profile =
     (if \<not> (action \<ge> -1 \<and> action \<le> 1) then
        Inl (AssertionError ''Action must be in the range [-1, 1]'')
      else
        and_then (array_at h state) (\<lambda>array.
        if length array \<noteq> 2 then
          Inl (AssertionError ''State must be a 2D array with shape (2,)'')
        else if \<not> dt > 0 then
          Inl (AssertionError ''Time step must be positive'')
        else
          let gradient = 0;
              k_curvature = 0;
              curvature_radius = 1;
              max_speed = 100 / 3.6
          in
          and_then (train_at h self) (\<lambda>t.
          let input_force = (if action \<ge> 0 then action * maximum_traction_force t
                             else action * maximum_braking_force t)
          in
          and_then (gradient_force_mem h self gradient) (\<lambda>(h, gradient_force').
          and_then (curvature_force_mem h self k_curvature curvature_radius) (\<lambda>(h, curvature_force').
          and_then (getitem h state 1) (\<lambda>state_1.
          and_then (aero_drag_and_rolling_res_mem h self state_1) (\<lambda>(h, aerodynamic_drag_and_rolling_res).
          let total_force = input_force - gradient_force' - curvature_force'
                            - aerodynamic_drag_and_rolling_res
          in
          and_then (train_at h self) (\<lambda>t.
          let acceleration = total_force / train_mass t
          in
          and_then (getitem h state 0) (\<lambda>state_0.
          and_then (getitem h state 1) (\<lambda>state_1.
          let (h, new_state) = np_array h [state_0 + state_1 * dt, acceleration * dt + state_1]
          in
          and_then (getitem h new_state 1) (\<lambda>new_state_1.
          let speed_overshoot = max 0 (new_state_1 - max_speed)
          in
          and_then (setitem h new_state 1 (min new_state_1 max_speed)) (\<lambda>h.
          let info = [(''gradient'', gradient),
                      (''curvature'', k_curvature),
                      (''curvature_radius'', curvature_radius),
                      (''max_speed'', max_speed),
                      (''speed_overshoot'', speed_overshoot),
                      (''aero_drag_and_rolling_res'', aerodynamic_drag_and_rolling_res),
                      (''gradient_force'', gradient_force'),
                      (''curvature_force'', curvature_force'),
                      (''input_force'', input_force)]
          in Inr (h, new_state, info)))))))))))))"

section \<open>Shared lemmas\<close>

text \<open>The resistance law does not see the sign of the velocity.\<close>

lemma aero_even:
  "aero_drag_and_rolling_res self (- v) = aero_drag_and_rolling_res self v"
  by (simp add: aero_drag_and_rolling_res_def)

text \<open>The value of \<open>step\<close> on an input that passes the three assertions.\<close>

lemma step_closed_form:
  assumes "- 1 \<le> action" "action \<le> 1" "0 < dt"
  shows "step self [p, v] action dt ti jp sp =
    (let input_force = (if 0 \<le> action then action * maximum_traction_force self
                        else action * maximum_braking_force self);
         acceleration = (input_force - gradient_force self 0 - train_mass self * 9.81 * 0 / 1
                          - aero_drag_and_rolling_res self v) / train_mass self
     in Inr ([p + v * dt, min (v + acceleration * dt) (100 / 3.6)],
             [(''gradient'', 0), (''curvature'', 0), (''curvature_radius'', 1),
              (''max_speed'', 100 / 3.6),
              (''speed_overshoot'', max 0 (v + acceleration * dt - 100 / 3.6)),
              (''aero_drag_and_rolling_res'', aero_drag_and_rolling_res self v),
              (''gradient_force'', gradient_force self 0),
              (''curvature_force'', train_mass self * 9.81 * 0 / 1),
              (''input_force'', input_force)]))"
  using assms by (simp add: step_def curvature_force_def Let_def add.commute)

text \<open>One coasting step of a vehicle without resistance, at or below the speed limit.\<close>

lemma coast_step:
  assumes "a_davis_formula self = 0" "b_davis_formula self = 0" "c_davis_formula self = 0"
    and "train_mass self \<noteq> 0" and "0 < dt" and "v \<le> 100 / 3.6"
  shows "\<exists>info. step self [p, v] 0 dt ti jp sp = Inr ([p + v * dt, v], info)"
  using assms
  by (simp add: step_def curvature_force_def gradient_force_def
        aero_drag_and_rolling_res_def Let_def)

text \<open>Sequencing after a raise and after a normal return.\<close>

lemma and_then_simps [simp]:
  "and_then (Inl e) f = Inl e" "and_then (Inr x) f = f x"
  by (simp_all add: and_then_def)

text \<open>
  On a store that holds a train behind \<open>self\<close> and an array behind \<open>state\<close>, the store-level
  \<open>step\<close> computes what the value-level \<open>step\<close> computes and leaves the old store with one
  array appended.
\<close>

lemma step_mem_refines:
  assumes "deref h self = Some (Train t)" and "deref h state = Some (NDArray xs)"
  shows "step_mem h self state action dt ti jp sp =
           map_sum id (\<lambda>(ns, info). (h @ [NDArray ns], length h, info))
             (step t xs action dt ti jp sp)"
proof (cases "- 1 \<le> action \<and> action \<le> 1 \<and> length xs = 2 \<and> 0 < dt")
  case False
  then show ?thesis
    using assms by (auto simp add: step_mem_def step_def array_at_def)
next
  case True
  then obtain p v where xs: "xs = [p, v]"
    by (cases xs; cases "tl xs"; auto)
  have d: "deref (h @ [y]) (length h) = Some y" for y
    by (simp add: deref_def)
  show ?thesis
    using True assms
    by (simp add: xs step_mem_def step_def array_at_def train_at_def getitem_def setitem_def
        np_array_def gradient_force_mem_def curvature_force_mem_def curvature_force_def
        aero_drag_and_rolling_res_mem_def d Let_def)
qed

section \<open>The Euler substep\<close>

text \<open>
  C1. For a state \<open>(p, v)\<close>, an action in \<open>[-1, 1]\<close> and \<open>dt > 0\<close>, \<open>step\<close> takes
  the commanded force as \<open>action * maximum_traction_force\<close> for \<open>action \<ge> 0\<close> and as
  \<open>action * maximum_braking_force\<close> otherwise, evaluates the gradient, curvature and
  resistance forces at the start-of-step velocity, subtracts the three from the commanded
  force, divides by the mass and performs one explicit Euler substep: the position becomes
  \<open>p + v * dt\<close> and the velocity before the clamp is \<open>v + acceleration * dt\<close>. The
  unclamped velocity is what the clamp and the overshoot entry are computed from, and it
  is the sum of the returned velocity and the returned overshoot.
\<close>

theorem step_explicit_euler:
  assumes "- 1 \<le> action" and "action \<le> 1" and "0 < dt"
  shows "\<exists>curvature.
    curvature_force self 0 1 = Inr curvature \<and>
    (let commanded = (if action \<ge> 0 then action * maximum_traction_force self
                      else action * maximum_braking_force self);
         gradient = gradient_force self 0;
         resistance = aero_drag_and_rolling_res self v;
         net = commanded - gradient - curvature - resistance;
         acceleration = net / train_mass self;
         unclamped = v + acceleration * dt
     in step self [p, v] action dt track_info journey_profile segment_profile =
          Inr ([p + v * dt, min unclamped (100 / 3.6)],
               [(''gradient'', 0), (''curvature'', 0), (''curvature_radius'', 1),
                (''max_speed'', 100 / 3.6),
                (''speed_overshoot'', max 0 (unclamped - 100 / 3.6)),
                (''aero_drag_and_rolling_res'', resistance),
                (''gradient_force'', gradient),
                (''curvature_force'', curvature),
                (''input_force'', commanded)])
        \<and> min unclamped (100 / 3.6) + max 0 (unclamped - 100 / 3.6) = unclamped)"
proof -
  have cf: "curvature_force self 0 1 = Inr (train_mass self * 9.81 * 0 / 1)"
    by (simp add: curvature_force_def)
  show ?thesis
    using step_closed_form [OF assms, of self p v track_info journey_profile segment_profile]
    by (simp add: cf Let_def)
qed

theorem step_explicit_euler_witness:
  "\<exists>curvature.
    curvature_force (init 1 2 3 2 10 20) 0 1 = Inr curvature \<and>
    step (init 1 2 3 2 10 20) [5, 3] (- 1 / 2) 1 [] [] [] =
      Inr ([8, - 19],
           [(''gradient'', 0), (''curvature'', 0), (''curvature_radius'', 1),
            (''max_speed'', 100 / 3.6), (''speed_overshoot'', 0),
            (''aero_drag_and_rolling_res'', 34), (''gradient_force'', 0),
            (''curvature_force'', curvature), (''input_force'', - 10)]) \<and>
    step (init 1 2 3 2 10 20) [5, - 1] (1 / 2) 2 [] [] [] =
      Inr ([3, - 2],
           [(''gradient'', 0), (''curvature'', 0), (''curvature_radius'', 1),
            (''max_speed'', 100 / 3.6), (''speed_overshoot'', 0),
            (''aero_drag_and_rolling_res'', 6), (''gradient_force'', 0),
            (''curvature_force'', curvature), (''input_force'', 5)])"
  using step_explicit_euler [of "- 1 / 2" 1 "init 1 2 3 2 10 20" 3 5 "[]" "[]" "[]"]
        step_explicit_euler [of "1 / 2" 2 "init 1 2 3 2 10 20" "- 1" 5 "[]" "[]" "[]"]
  by (simp add: init_def gradient_force_def aero_drag_and_rolling_res_def curvature_force_def Let_def)

section \<open>The speed-limit clamp\<close>

text \<open>
  C2. On every input that passes the assertions the returned velocity is the minimum of the
  unclamped velocity and the speed limit, hence at most the limit; the
  \<open>speed_overshoot\<close> entry is \<open>max 0 (unclamped - limit)\<close>, which is the difference when
  the limit is exceeded and 0 otherwise; an unclamped velocity at or below the limit is
  returned as it is, however small; the returned position is \<open>p + v * dt\<close>.
\<close>

theorem step_speed_limit_clamp:
  assumes "- 1 \<le> action" and "action \<le> 1" and "0 < dt"
  shows "let commanded = (if action \<ge> 0 then action * maximum_traction_force self
                          else action * maximum_braking_force self);
             acceleration = (commanded - gradient_force self 0 - train_mass self * 9.81 * 0 / 1
                              - aero_drag_and_rolling_res self v) / train_mass self;
             unclamped = v + acceleration * dt;
             speed_limit = 100 / 3.6
         in \<exists>new_velocity overshoot info.
              step self [p, v] action dt track_info journey_profile segment_profile =
                Inr ([p + v * dt, new_velocity], info) \<and>
              map_of info ''max_speed'' = Some speed_limit \<and>
              map_of info ''speed_overshoot'' = Some overshoot \<and>
              new_velocity = min unclamped speed_limit \<and>
              new_velocity \<le> speed_limit \<and>
              overshoot = max 0 (unclamped - speed_limit) \<and>
              (speed_limit < unclamped \<longrightarrow>
                 new_velocity = speed_limit \<and> overshoot = unclamped - speed_limit) \<and>
              (unclamped \<le> speed_limit \<longrightarrow> new_velocity = unclamped \<and> overshoot = 0)"
proof -
  note s = step_closed_form [OF assms, of self p v track_info journey_profile segment_profile,
      unfolded Let_def]
  show ?thesis
    unfolding Let_def s by (simp add: min_def max_def)
qed

theorem step_speed_limit_clamp_witness:
  "(\<exists>info. step (init 0 0 0 1 60 60) [0, 0] 1 1 [] [] [] = Inr ([0, 250 / 9], info) \<and>
      map_of info ''speed_overshoot'' = Some (60 - 250 / 9)) \<and>
   (\<exists>info. step (init 0 0 0 1 60 60) [0, 0] (- 1) 1 [] [] [] = Inr ([0, - 60], info) \<and>
      map_of info ''speed_overshoot'' = Some 0)"
  using step_speed_limit_clamp [of 1 1 "init 0 0 0 1 60 60" 0 0 "[]" "[]" "[]"]
        step_speed_limit_clamp [of "- 1" 1 "init 0 0 0 1 60 60" 0 0 "[]" "[]" "[]"]
  by (auto simp add: init_def gradient_force_def aero_drag_and_rolling_res_def Let_def)

section \<open>Preconditions\<close>

text \<open>
  C3. A call whose action is outside \<open>[-1, 1]\<close>, whose state does not have exactly two
  entries, or whose \<open>dt\<close> is not positive raises \<open>AssertionError\<close> and returns no state;
  a call that satisfies all three returns a state and diagnostics.
\<close>

theorem step_preconditions:
  "if - 1 \<le> action \<and> action \<le> 1 \<and> length state = 2 \<and> 0 < dt
   then \<exists>new_state info.
          step self state action dt track_info journey_profile segment_profile = Inr (new_state, info)
   else \<exists>message.
          step self state action dt track_info journey_profile segment_profile =
            Inl (AssertionError message)"
  by (simp add: step_def curvature_force_def Let_def)

theorem step_preconditions_witness:
  "(\<exists>message. step (init 0.5 0.1 0.01 100000 500000 500000) [0, 0] 1.5 0.01 [] [] [] =
      Inl (AssertionError message)) \<and>
   (\<exists>message. step (init 0.5 0.1 0.01 100000 500000 500000) [0, 0, 0] 1 0.01 [] [] [] =
      Inl (AssertionError message)) \<and>
   (\<exists>message. step (init 0.5 0.1 0.01 100000 500000 500000) [0, 0] 1 0 [] [] [] =
      Inl (AssertionError message)) \<and>
   (\<exists>new_state info. step (init 0.5 0.1 0.01 100000 500000 500000) [0, 0] 1 0.01 [] [] [] =
      Inr (new_state, info))"
  using step_preconditions [of "1.5" "[0, 0]" "0.01" "init 0.5 0.1 0.01 100000 500000 500000" "[]" "[]" "[]"]
        step_preconditions [of 1 "[0, 0, 0]" "0.01" "init 0.5 0.1 0.01 100000 500000 500000" "[]" "[]" "[]"]
        step_preconditions [of 1 "[0, 0]" 0 "init 0.5 0.1 0.01 100000 500000 500000" "[]" "[]" "[]"]
        step_preconditions [of 1 "[0, 0]" "0.01" "init 0.5 0.1 0.01 100000 500000 500000" "[]" "[]" "[]"]
  by simp

section \<open>Symmetry of the resistance force\<close>

text \<open>
  There is no vehicle with \<open>b \<noteq> 0\<close> and no velocity at which the resistance force
  differs from the one at the opposite velocity: the linear term takes \<open>\<bar>v\<bar>\<close> and the
  quadratic term \<open>v\<^sup>2\<close>.
\<close>

theorem resistance_asymmetry_counterexample:
  "\<not> (\<exists>self v. b_davis_formula self \<noteq> 0 \<and>
         aero_drag_and_rolling_res self v \<noteq> aero_drag_and_rolling_res self (- v))"
  by (simp add: aero_even)

text \<open>
  C4, as the code has it: \<open>resistanceForce(v) = resistanceForce(-v)\<close> for every velocity
  and every choice of the coefficients, \<open>b \<noteq> 0\<close> included.
\<close>

theorem resistance_even:
  "aero_drag_and_rolling_res self v = aero_drag_and_rolling_res self (- v)"
  by (simp add: aero_drag_and_rolling_res_def)

section \<open>The worked example\<close>

text \<open>
  With the constants of example.py, state \<open>(0, 0)\<close>, full traction and \<open>dt = 0.01\<close>, the
  returned velocity is 0.04999995, which is 4.94999505 away from 4.999995.
\<close>

theorem example_velocity_not_acceleration:
  "step (init 0.5 0.1 0.01 100000 500000 500000) [0, 0] 1.0 0.01 [] [] [] =
     Inr ([0, 0.04999995],
          [(''gradient'', 0), (''curvature'', 0), (''curvature_radius'', 1),
           (''max_speed'', 100 / 3.6), (''speed_overshoot'', 0),
           (''aero_drag_and_rolling_res'', 0.5), (''gradient_force'', 0),
           (''curvature_force'', 0), (''input_force'', 500000)]) \<and>
   \<bar>0.04999995 - 4.999995 :: real\<bar> = 4.94999505"
  by (simp add: step_def init_def curvature_force_def gradient_force_def
        aero_drag_and_rolling_res_def Let_def)

text \<open>
  C5, as the code has it: with mass 100000, maximum traction and braking force 500000,
  coefficients 0.5, 0.1, 0.01, state \<open>(0, 0)\<close>, action 1.0 and \<open>dt = 0.01\<close> one call
  returns the state \<open>(0.0, 0.04999995)\<close>; the acceleration is
  \<open>(500000 - 0.5) / 100000 = 4.999995\<close> and the velocity is that acceleration times \<open>dt\<close>.
\<close>

theorem example_step_exact:
  "step (init 0.5 0.1 0.01 100000 500000 500000) [0, 0] 1.0 0.01 [] [] [] =
     Inr ([0.0, (500000 - 0.5) / 100000 * 0.01],
          [(''gradient'', 0), (''curvature'', 0), (''curvature_radius'', 1),
           (''max_speed'', 100 / 3.6), (''speed_overshoot'', 0),
           (''aero_drag_and_rolling_res'', 0.5), (''gradient_force'', 0),
           (''curvature_force'', 0), (''input_force'', 500000)]) \<and>
   ((500000 - 0.5) / 100000 :: real) = 4.999995 \<and>
   ((500000 - 0.5) / 100000 * 0.01 :: real) = 0.04999995"
  by (simp add: step_def init_def curvature_force_def gradient_force_def
        aero_drag_and_rolling_res_def Let_def)

section \<open>Coasting\<close>

text \<open>
  A vehicle without resistance that coasts at 30 m/s leaves its first step at the speed
  limit of 250/9 m/s: the clamp changes the velocity.
\<close>

theorem coasting_counterexample:
  "drive (init 0 0 0 1 1 1) [0, 30] 0 1 (Suc 0) = Inr [30, 250 / 9] \<and> (250 / 9 :: real) \<noteq> 30"
  by (simp add: step_def init_def curvature_force_def gradient_force_def
        aero_drag_and_rolling_res_def Let_def)

text \<open>
  C6, as the code has it: for action 0, zero resistance coefficients, a non-zero mass and
  an initial velocity at or below the speed limit of 100/3.6 m/s, the velocity is unchanged
  after any number of steps and the position advances by \<open>v * dt\<close> on each step.
\<close>

theorem coasting_below_speed_limit:
  assumes "a_davis_formula self = 0" and "b_davis_formula self = 0"
    and "c_davis_formula self = 0" and "train_mass self \<noteq> 0"
    and "0 < dt" and "v \<le> 100 / 3.6"
  shows "drive self [p, v] 0 dt n = Inr [p + real n * (v * dt), v]"
proof (induction n arbitrary: p)
  case 0
  show ?case by simp
next
  case (Suc n)
  obtain info where "step self [p, v] 0 dt [] [] [] = Inr ([p + v * dt, v], info)"
    using coast_step [OF assms] by blast
  then show ?case
    by (simp add: Suc.IH algebra_simps)
qed

theorem coasting_below_speed_limit_witness:
  "drive (init 0 0 0 1 1 1) [0, 20] 0 (1 / 2) 3 = Inr [30, 20]"
  using coasting_below_speed_limit [of "init 0 0 0 1 1 1" "1 / 2" 20 0 3]
  by (simp add: init_def)

section \<open>Independence of the track context\<close>

text \<open>
  C7. The result of \<open>step\<close>, state and diagnostics, does not depend on the
  \<open>track_info\<close>, \<open>journey_profile\<close> and \<open>segment_profile\<close> arguments: two calls that agree
  on the vehicle, the state, the action and \<open>dt\<close> return the same value. The context
  resolves to gradient 0, curvature factor 0, curvature radius 1 and a speed limit of
  100 km/h.
\<close>

theorem step_ignores_context:
  "step self state action dt track_info journey_profile segment_profile =
     step self state action dt track_info' journey_profile' segment_profile' \<and>
   (\<forall>new_state info.
      step self state action dt track_info journey_profile segment_profile = Inr (new_state, info)
      \<longrightarrow> map_of info ''gradient'' = Some 0 \<and> map_of info ''curvature'' = Some 0 \<and>
          map_of info ''curvature_radius'' = Some 1 \<and>
          map_of info ''max_speed'' = Some (100 * 1000 / 3600))"
  by (auto simp add: step_def curvature_force_def Let_def split: if_splits)

theorem step_ignores_context_witness:
  "step (init 0.5 0.1 0.01 100000 500000 500000) [0, 0] 1 0.01 [] [] [] =
     step (init 0.5 0.1 0.01 100000 500000 500000) [0, 0] 1 0.01
       [(''gradient'', 0.3)] [(''speed_limit'', 10)] [(''stop'', 500)] \<and>
   (\<exists>new_state info.
      step (init 0.5 0.1 0.01 100000 500000 500000) [0, 0] 1 0.01
        [(''gradient'', 0.3)] [(''speed_limit'', 10)] [(''stop'', 500)] = Inr (new_state, info) \<and>
      map_of info ''gradient'' = Some 0 \<and> map_of info ''curvature'' = Some 0 \<and>
      map_of info ''curvature_radius'' = Some 1 \<and> map_of info ''max_speed'' = Some (250 / 9))"
proof -
  let ?t = "init 0.5 0.1 0.01 100000 500000 500000"
  obtain ns info where r: "step ?t [0, 0] 1 0.01
        [(''gradient'', 0.3)] [(''speed_limit'', 10)] [(''stop'', 500)] = Inr (ns, info)"
    by (simp add: step_def curvature_force_def Let_def)
  note c = step_ignores_context [of ?t "[0, 0]" 1 "0.01"
        "[(''gradient'', 0.3)]" "[(''speed_limit'', 10)]" "[(''stop'', 500)]" "[]" "[]" "[]"]
  from c have same: "step ?t [0, 0] 1 0.01 [] [] [] =
      step ?t [0, 0] 1 0.01 [(''gradient'', 0.3)] [(''speed_limit'', 10)] [(''stop'', 500)]"
    by simp
  from c r have "map_of info ''gradient'' = Some 0 \<and> map_of info ''curvature'' = Some 0 \<and>
      map_of info ''curvature_radius'' = Some 1 \<and> map_of info ''max_speed'' = Some (250 / 9)"
    by simp
  with r same show ?thesis by blast
qed

section \<open>The gradient force\<close>

text \<open>
  C8. The gradient force is \<open>mass * 9.81 * sin angle\<close> for every angle: 0 at angle 0 and
  \<open>mass * 9.81\<close> at \<open>\<pi>/2\<close>. For a positive mass an uphill angle, one between 0 and \<open>\<pi>\<close>,
  gives a positive force. In \<open>step\<close> the \<open>gradient_force\<close> entry of the diagnostics is the
  law at the \<open>gradient\<close> entry, and it is subtracted from the commanded force in the net
  force that moves the velocity.
\<close>

theorem gradient_force_law:
  "gradient_force self angle = train_mass self * 9.81 * sin angle \<and>
   gradient_force self 0 = 0 \<and>
   gradient_force self (pi / 2) = train_mass self * 9.81 \<and>
   (0 < train_mass self \<and> 0 < angle \<and> angle < pi \<longrightarrow> 0 < gradient_force self angle) \<and>
   (- 1 \<le> action \<and> action \<le> 1 \<and> 0 < dt \<longrightarrow>
      (\<exists>new_velocity info commanded uphill curvature resistance.
         step self [p, v] action dt track_info journey_profile segment_profile =
           Inr ([p + v * dt, new_velocity], info) \<and>
         map_of info ''gradient'' = Some 0 \<and>
         map_of info ''input_force'' = Some commanded \<and>
         map_of info ''gradient_force'' = Some uphill \<and>
         map_of info ''curvature_force'' = Some curvature \<and>
         map_of info ''aero_drag_and_rolling_res'' = Some resistance \<and>
         map_of info ''max_speed'' = Some (100 / 3.6) \<and>
         uphill = gradient_force self 0 \<and>
         new_velocity =
           min (v + (commanded - uphill - curvature - resistance) / train_mass self * dt)
             (100 / 3.6)))"
proof -
  have pos: "0 < gradient_force self angle"
    if "0 < train_mass self" "0 < angle" "angle < pi"
    using that by (simp add: gradient_force_def sin_gt_zero)
  have sub: "\<exists>new_velocity info commanded uphill curvature resistance.
         step self [p, v] action dt track_info journey_profile segment_profile =
           Inr ([p + v * dt, new_velocity], info) \<and>
         map_of info ''gradient'' = Some 0 \<and>
         map_of info ''input_force'' = Some commanded \<and>
         map_of info ''gradient_force'' = Some uphill \<and>
         map_of info ''curvature_force'' = Some curvature \<and>
         map_of info ''aero_drag_and_rolling_res'' = Some resistance \<and>
         map_of info ''max_speed'' = Some (100 / 3.6) \<and>
         uphill = gradient_force self 0 \<and>
         new_velocity =
           min (v + (commanded - uphill - curvature - resistance) / train_mass self * dt)
             (100 / 3.6)"
    if "- 1 \<le> action" "action \<le> 1" "0 < dt"
    unfolding step_closed_form [OF that, of self p v track_info journey_profile segment_profile]
      Let_def
    by simp
  show ?thesis
    using pos sub by (simp add: gradient_force_def)
qed

theorem gradient_force_law_witness:
  "gradient_force (init 0.5 0.1 0.01 100000 500000 500000) (pi / 6) = 490500 \<and>
   0 < gradient_force (init 0.5 0.1 0.01 100000 500000 500000) (pi / 6) \<and>
   (\<exists>info. step (init 0 0 0 2 10 20) [5, 3] 1 1 [] [] [] = Inr ([8, 8], info) \<and>
      map_of info ''gradient_force'' = Some 0)"
proof -
  let ?t = "init 0.5 0.1 0.01 100000 500000 500000"
  have a: "0 < train_mass ?t \<and> 0 < pi / 6 \<and> pi / 6 < pi" by (simp add: init_def)
  note g = gradient_force_law [of ?t "pi / 6" 1 1 5 3 "[]" "[]" "[]"]
  from g a have "0 < gradient_force ?t (pi / 6)" by blast
  moreover from g have "gradient_force ?t (pi / 6) = 490500"
    by (simp add: init_def sin_30)
  moreover have "\<exists>info. step (init 0 0 0 2 10 20) [5, 3] 1 1 [] [] [] = Inr ([8, 8], info) \<and>
      map_of info ''gradient_force'' = Some 0"
    using gradient_force_law [of "init 0 0 0 2 10 20" 0 1 1 5 3 "[]" "[]" "[]"]
    by (auto simp add: init_def gradient_force_def step_def curvature_force_def
          aero_drag_and_rolling_res_def Let_def)
  ultimately show ?thesis by blast
qed

section \<open>No writes to the caller's objects\<close>

text \<open>
  C9. On the store, a call of \<open>step\<close> that returns hands back a reference that was not
  allocated before, different from \<open>state\<close> and \<open>self\<close>; the array behind \<open>state\<close> and the
  six attributes behind \<open>self\<close> are as before the call, as is every other object of the
  old store: the only change is the one new array, which holds the state the value-level
  \<open>step\<close> returns. A call that raises, raises what the value-level \<open>step\<close> raises. Each
  force law returns the store it was given.
\<close>

theorem step_mem_frame:
  assumes "deref h self = Some (Train t)" and "deref h state = Some (NDArray xs)"
  shows "(\<forall>h' new_state info.
            step_mem h self state action dt track_info journey_profile segment_profile =
              Inr (h', new_state, info) \<longrightarrow>
            deref h new_state = None \<and> new_state \<noteq> state \<and> new_state \<noteq> self \<and>
            deref h' state = Some (NDArray xs) \<and>
            deref h' self = Some (Train t) \<and>
            (\<forall>r. r < length h \<longrightarrow> deref h' r = deref h r) \<and>
            (\<exists>ns. h' = h @ [NDArray ns] \<and> deref h' new_state = Some (NDArray ns) \<and>
               step t xs action dt track_info journey_profile segment_profile = Inr (ns, info))) \<and>
         (\<forall>e. step_mem h self state action dt track_info journey_profile segment_profile = Inl e
            \<longrightarrow> step t xs action dt track_info journey_profile segment_profile = Inl e) \<and>
         aero_drag_and_rolling_res_mem h self velocity =
           Inr (h, aero_drag_and_rolling_res t velocity) \<and>
         gradient_force_mem h self gradient = Inr (h, gradient_force t gradient) \<and>
         curvature_force_mem h self k_curvature curvature_radius =
           map_sum id (\<lambda>force. (h, force)) (curvature_force t k_curvature curvature_radius)"
proof -
  have self: "self < length h" and state: "state < length h"
    using assms by (auto simp add: deref_def split: if_splits)
  have laws: "aero_drag_and_rolling_res_mem h self velocity =
           Inr (h, aero_drag_and_rolling_res t velocity) \<and>
         gradient_force_mem h self gradient = Inr (h, gradient_force t gradient) \<and>
         curvature_force_mem h self k_curvature curvature_radius =
           map_sum id (\<lambda>force. (h, force)) (curvature_force t k_curvature curvature_radius)"
    using assms
    by (simp add: aero_drag_and_rolling_res_mem_def gradient_force_mem_def
        curvature_force_mem_def train_at_def curvature_force_def)
  note r = step_mem_refines [OF assms, of action dt track_info journey_profile segment_profile]
  have ok: "deref h new_state = None \<and> new_state \<noteq> state \<and> new_state \<noteq> self \<and>
            deref h' state = Some (NDArray xs) \<and>
            deref h' self = Some (Train t) \<and>
            (\<forall>r. r < length h \<longrightarrow> deref h' r = deref h r) \<and>
            (\<exists>ns. h' = h @ [NDArray ns] \<and> deref h' new_state = Some (NDArray ns) \<and>
               step t xs action dt track_info journey_profile segment_profile = Inr (ns, info))"
    if "step_mem h self state action dt track_info journey_profile segment_profile =
              Inr (h', new_state, info)" for h' new_state info
  proof -
    from that r obtain ns where ns: "step t xs action dt track_info journey_profile segment_profile
        = Inr (ns, info)" and h': "h' = h @ [NDArray ns]" and n: "new_state = length h"
      by (cases "step t xs action dt track_info journey_profile segment_profile") auto
    show ?thesis
      using assms self state ns
      by (auto simp add: h' n deref_def nth_append)
  qed
  have err: "step t xs action dt track_info journey_profile segment_profile = Inl e"
    if "step_mem h self state action dt track_info journey_profile segment_profile = Inl e" for e
    using that r
    by (cases "step t xs action dt track_info journey_profile segment_profile") auto
  show ?thesis
    using ok err laws by blast
qed

theorem step_mem_frame_witness:
  "(\<exists>h' info.
      step_mem [Train (init 0.5 0.1 0.01 100000 500000 500000), NDArray [0, 0]] 0 1 1 0.01 [] [] [] =
        Inr (h', 2, info) \<and>
      deref h' 1 = Some (NDArray [0, 0]) \<and>
      deref h' 0 = Some (Train (init 0.5 0.1 0.01 100000 500000 500000)) \<and>
      deref h' 2 = Some (NDArray [0, 0.04999995])) \<and>
   step (init 0.5 0.1 0.01 100000 500000 500000) [0, 0] 1.5 0.01 [] [] [] =
     Inl (AssertionError ''Action must be in the range [-1, 1]'')"
proof -
  let ?t = "init 0.5 0.1 0.01 100000 500000 500000"
  let ?h = "[Train ?t, NDArray [0, 0]]"
  have a: "deref ?h 0 = Some (Train ?t)" and b: "deref ?h 1 = Some (NDArray [0, 0])"
    by (simp_all add: deref_def)
  note f = step_mem_frame [OF a b, of 1 "0.01" "[]" "[]" "[]"]
  obtain h' info where r: "step_mem ?h 0 1 1 0.01 [] [] [] = Inr (h', 2, info)"
    and h': "h' = ?h @ [NDArray [0, 0.04999995]]"
    by (simp add: step_mem_def array_at_def train_at_def getitem_def setitem_def
        np_array_def gradient_force_mem_def curvature_force_mem_def curvature_force_def
        aero_drag_and_rolling_res_mem_def deref_def Let_def init_def
        gradient_force_def aero_drag_and_rolling_res_def)
  from f r have "deref h' 1 = Some (NDArray [0, 0]) \<and> deref h' 0 = Some (Train ?t)"
    by blast
  moreover have "deref h' 2 = Some (NDArray [0, 0.04999995])"
    by (simp add: h' deref_def)
  moreover have "step_mem ?h 0 1 1.5 0.01 [] [] [] =
      Inl (AssertionError ''Action must be in the range [-1, 1]'')"
    by (simp add: step_mem_def)
  with step_mem_frame [OF a b, of "1.5" "0.01" "[]" "[]" "[]"]
  have "step ?t [0, 0] 1.5 0.01 [] [] [] =
      Inl (AssertionError ''Action must be in the range [-1, 1]'')"
    by blast
  ultimately show ?thesis using r by blast
qed

section \<open>Totality\<close>

text \<open>
  C10. For an action in \<open>[-1, 1]\<close>, a state of two entries and \<open>dt > 0\<close>, \<open>step\<close> returns a
  state of two entries and diagnostics. \<open>step\<close> never raises \<open>ZeroDivisionError\<close>, whatever
  its input: the curvature force law raises it exactly for a zero radius, and \<open>step\<close> calls
  the law with factor 0 and radius 1.
\<close>

theorem step_total:
  "(- 1 \<le> action \<and> action \<le> 1 \<and> length state = 2 \<and> 0 < dt \<longrightarrow>
      (\<exists>new_state info.
         step self state action dt track_info journey_profile segment_profile = Inr (new_state, info) \<and>
         length new_state = 2 \<and> map_of info ''curvature_radius'' = Some 1)) \<and>
   step self state action dt track_info journey_profile segment_profile \<noteq> Inl ZeroDivisionError \<and>
   (\<exists>force. curvature_force self 0 1 = Inr force) \<and>
   (curvature_force self k_curvature curvature_radius = Inl ZeroDivisionError
      \<longleftrightarrow> curvature_radius = 0)"
  by (simp add: step_def curvature_force_def Let_def)

theorem step_total_witness:
  "(\<exists>new_state info.
      step (init 0.5 0.1 0.01 100000 500000 500000) [0, 0] 1 0.01 [] [] [] = Inr (new_state, info) \<and>
      length new_state = 2 \<and> map_of info ''curvature_radius'' = Some 1) \<and>
   (\<exists>new_state info.
      step (init 0 0 0 0 0 0) [0, 0] (- 1) 1 [] [] [] = Inr (new_state, info) \<and>
      length new_state = 2 \<and> map_of info ''curvature_radius'' = Some 1) \<and>
   curvature_force (init 0.5 0.1 0.01 100000 500000 500000) 1 0 = Inl ZeroDivisionError"
  using step_total [of 1 "[0, 0]" "0.01" "init 0.5 0.1 0.01 100000 500000 500000" "[]" "[]" "[]" 1 0]
        step_total [of "- 1" "[0, 0]" 1 "init 0 0 0 0 0 0" "[]" "[]" "[]" 1 0]
  by simp

end
